theory Spec2Isabelle
  imports Main "HOL-Library.Word"
begin

unbundle bit_operations_syntax

section \<open>Diagnostics and failures\<close>

text \<open>
  The driver reports every condition by pushing an object onto \<open>context.errors\<close>, the
  diagnostic sink owned by the caller. The object has the fields \<open>type\<close>, \<open>severity\<close>,
  \<open>location\<close>, \<open>explain\<close> and \<open>elaborate\<close>; the last two are thunks returning a fixed
  text, modelled by the text itself. Line and column numbers are JavaScript numbers
  holding integers, so \<open>column + 1\<close> does not wrap: they are \<open>int\<close>.
\<close>

datatype ErrorType = SYNTAX | RUNTIME

datatype ErrorSeverity = WARNING | ERROR

record position =
  line :: int
  column :: int

record source_location =
  source :: "string option"
  loc_start :: position
  loc_end :: position

record source_error =
  err_type :: ErrorType
  severity :: ErrorSeverity
  location :: source_location
  explain :: string
  elaborate :: string

text \<open>
  Values that the driver or its collaborators throw or reject with. \<open>CompileError\<close> and
  \<open>RuntimeError\<close> are the two exported classes; \<open>PropagationToken\<close> is the module-level
  object \<open>propagationToken\<close>, thrown only by the fault import; \<open>RangeError\<close> is what
  \<open>DataView\<close> and the typed-array constructor throw on an out-of-range access;
  \<open>WasmTrap\<close> is a trap of the running module; \<open>HostError\<close> is any other failure of
  a collaborator, with its text.
\<close>

datatype js_error =
    CompileError string
  | RuntimeError string
  | PropagationToken
  | RangeError
  | WasmTrap
  | HostError string

text \<open>
  A promise as its holder sees it in the end: fulfilled with a value, rejected with a
  reason, or \<open>Pending\<close> for ever when it never settles.
\<close>

datatype 'a promise = Fulfilled 'a | Rejected js_error | Pending

section \<open>Runtime fault codes\<close>

fun stringifySourcerorRuntimeErrorCode :: "int \<Rightarrow> string \<times> string" where
  "stringifySourcerorRuntimeErrorCode code =
     (if code = 0x0 then (''General runtime error'', '''')
      else if code = 0x1 then
        (''Out of memory'',
         ''Strings and objects are allocated on the heap.  You have exhausted the available heap space.  Try recompiling your program with increased heap space.'')
      else if code = 0x10 then (''General runtime type error'', '''')
      else if code = 0x12 then (''Unary operator called with incorrect parameter type'', '''')
      else if code = 0x13 then (''Binary operator called with incorrect parameter type'', '''')
      else if code = 0x16 then (''Function call operator applied on a non-function'', '''')
      else if code = 0x17 then (''If statement has a non-boolean condition'', '''')
      else (''Unknown runtime error'', ''This is probably a bug in Sourceror; please report it.''))"

section \<open>Host strings and the text decoder\<close>

text \<open>
  A JavaScript string is a sequence of UTF-16 code units. The literals of the source are
  ASCII, so \<open>js_lit\<close> takes each character to the code unit of the same number.
\<close>

type_synonym byte = "8 word"

type_synonym js_string = "16 word list"

definition js_lit :: "string \<Rightarrow> js_string" where
  "js_lit s = map (\<lambda>c. of_nat (of_char c)) s"

text \<open>
  String concatenation with a number converts the number to text; for the unsigned 32-bit
  integers that \<open>getUint32\<close> returns this is the decimal numeral without leading zeros.
\<close>

fun number_to_string :: "nat \<Rightarrow> string" where
  "number_to_string n =
     (if n < 10 then [''0123456789'' ! n]
      else number_to_string (n div 10) @ [''0123456789'' ! (n mod 10)])"

text \<open>
  \<open>new TextDecoder()\<close> is the host's UTF-8 decoder in its default mode: not fatal (an
  ill-formed sequence yields U+FFFD and decoding goes on) and with a leading byte order
  mark removed. The decoder is the state machine of the Encoding standard. Where the
  standard puts a byte that is out of the expected range back into the input, to be read
  again by the reset decoder, \<open>utf8_handler\<close> hands that byte to \<open>utf8_lead\<close> at once.
\<close>

record utf8_decoder =
  code_point :: nat
  bytes_seen :: nat
  bytes_needed :: nat
  lower_boundary :: nat
  upper_boundary :: nat

definition utf8_initial :: utf8_decoder where
  "utf8_initial =
     \<lparr>code_point = 0, bytes_seen = 0, bytes_needed = 0,
      lower_boundary = 0x80, upper_boundary = 0xBF\<rparr>"

definition utf8_lead :: "nat \<Rightarrow> nat list \<times> utf8_decoder" where
  "utf8_lead b =
     (if b \<le> 0x7F then ([b], utf8_initial)
      else if 0xC2 \<le> b \<and> b \<le> 0xDF then
        ([], utf8_initial\<lparr>bytes_needed := 1, code_point := b AND 0x1F\<rparr>)
      else if 0xE0 \<le> b \<and> b \<le> 0xEF then
        ([], utf8_initial
               \<lparr>lower_boundary := (if b = 0xE0 then 0xA0 else 0x80),
                upper_boundary := (if b = 0xED then 0x9F else 0xBF),
                bytes_needed := 2, code_point := b AND 0xF\<rparr>)
      else if 0xF0 \<le> b \<and> b \<le> 0xF4 then
        ([], utf8_initial
               \<lparr>lower_boundary := (if b = 0xF0 then 0x90 else 0x80),
                upper_boundary := (if b = 0xF4 then 0x8F else 0xBF),
                bytes_needed := 3, code_point := b AND 0x7\<rparr>)
      else ([0xFFFD], utf8_initial))"

definition utf8_handler :: "utf8_decoder \<Rightarrow> nat \<Rightarrow> nat list \<times> utf8_decoder" where
  "utf8_handler d b =
     (if bytes_needed d = 0 then utf8_lead b
      else if b < lower_boundary d \<or> upper_boundary d < b then
        (case utf8_lead b of (out, d') \<Rightarrow> (0xFFFD # out, d'))
      else
        (let cp = push_bit 6 (code_point d) OR (b AND 0x3F) in
         if bytes_seen d + 1 \<noteq> bytes_needed d then
           ([], d\<lparr>lower_boundary := 0x80, upper_boundary := 0xBF,
                  code_point := cp, bytes_seen := bytes_seen d + 1\<rparr>)
         else ([cp], utf8_initial)))"

fun utf8_decode_from :: "utf8_decoder \<Rightarrow> byte list \<Rightarrow> nat list" where
  "utf8_decode_from d [] = (if bytes_needed d \<noteq> 0 then [0xFFFD] else [])"
| "utf8_decode_from d (b # bs) =
     (case utf8_handler d (unat b) of (out, d') \<Rightarrow> out @ utf8_decode_from d' bs)"

fun strip_bom :: "nat list \<Rightarrow> nat list" where
  "strip_bom [] = []"
| "strip_bom (c # cs) = (if c = 0xFEFF then cs else c # cs)"

definition utf16_units :: "nat \<Rightarrow> 16 word list" where
  "utf16_units cp =
     (if cp < 0x10000 then [of_nat cp]
      else [of_nat (0xD800 + (cp - 0x10000) div 0x400),
            of_nat (0xDC00 + (cp - 0x10000) mod 0x400)])"

definition text_decode :: "byte list \<Rightarrow> js_string" where
  "text_decode bytes =
     concat (map utf16_units (strip_bom (utf8_decode_from utf8_initial bytes)))"

section \<open>The value decoder\<close>

text \<open>
  The linear memory is its buffer: a list of bytes. \<open>DataView.getUint32\<close> and
  \<open>getFloat64\<close> with \<open>littleEndian = true\<close> read 4 and 8 bytes, least significant
  first, and throw a \<open>RangeError\<close> when the bytes do not all lie inside the buffer;
  \<open>new Uint8Array(buffer, byteOffset, length)\<close> throws it when
  \<open>byteOffset + length\<close> exceeds the length of the buffer. Offsets are JavaScript
  numbers, so \<open>ptr + 4\<close> is exact: \<open>nat\<close>. A number read by \<open>getFloat64\<close> is kept as
  the 64 bits of its IEEE-754 encoding.
\<close>

fun le_value :: "byte list \<Rightarrow> nat" where
  "le_value [] = 0"
| "le_value (b # bs) = unat b + 256 * le_value bs"

definition getUint32 :: "byte list \<Rightarrow> nat \<Rightarrow> js_error + nat" where
  "getUint32 buffer byteOffset =
     (if byteOffset + 4 \<le> length buffer
      then Inr (le_value (take 4 (drop byteOffset buffer)))
      else Inl RangeError)"

definition getFloat64 :: "byte list \<Rightarrow> nat \<Rightarrow> js_error + 64 word" where
  "getFloat64 buffer byteOffset =
     (if byteOffset + 8 \<le> length buffer
      then Inr (of_nat (le_value (take 8 (drop byteOffset buffer))))
      else Inl RangeError)"

definition Uint8Array :: "byte list \<Rightarrow> nat \<Rightarrow> nat \<Rightarrow> js_error + byte list" where
  "Uint8Array buffer byteOffset len =
     (if byteOffset + len \<le> length buffer
      then Inr (take len (drop byteOffset buffer))
      else Inl RangeError)"

datatype js_value =
    JSUndefined
  | JSNumber "64 word"
  | JSBoolean bool
  | JSString js_string

definition tag_offset :: nat where
  "tag_offset = push_bit 20 1 - 12"

definition data_offset :: nat where
  "data_offset = push_bit 20 1 - 8"

definition read_js_result :: "byte list \<Rightarrow> js_error + js_value" where
  "read_js_result linear_memory =
     (case getUint32 linear_memory tag_offset of
        Inl e \<Rightarrow> Inl e
      | Inr tag \<Rightarrow>
          if tag = 0 then Inr (JSString (js_lit ''(unassigned variable was returned)''))
          else if tag = 1 then Inr JSUndefined
          else if tag = 2 then
            (case getFloat64 linear_memory data_offset of
               Inl e \<Rightarrow> Inl e
             | Inr d \<Rightarrow> Inr (JSNumber d))
          else if tag = 3 then
            (case getUint32 linear_memory data_offset of
               Inl e \<Rightarrow> Inl e
             | Inr w \<Rightarrow> Inr (JSBoolean (w \<noteq> 0)))
          else if tag = 4 then
            (case getUint32 linear_memory data_offset of
               Inl e \<Rightarrow> Inl e
             | Inr ptr \<Rightarrow>
                 (case getUint32 linear_memory ptr of
                    Inl e \<Rightarrow> Inl e
                  | Inr len \<Rightarrow>
                      (case Uint8Array linear_memory (ptr + 4) len of
                         Inl e \<Rightarrow> Inl e
                       | Inr bytes \<Rightarrow> Inr (JSString (text_decode bytes)))))
          else if tag = 5 then Inr (JSString (js_lit ''(function was returned)''))
          else Inr (JSString (js_lit
                 (''(struct or invalid type ('' @ number_to_string tag @ '') was returned)''))))"

section \<open>Compilation\<close>

text \<open>
  The collaborators of \<open>compile\<close> are parameters. \<open>slang_parse\<close> receives the source
  text and the sink, which it may extend, and returns a tree or nothing.
  \<open>create_context\<close> is the handle that \<open>Sourceror.create_context\<close> returns.
  \<open>Sourceror_compile\<close> gives, for a handle, the serialized tree and the third argument,
  the invocations \<open>(severity_code, message, line, column)\<close> of the diagnostic callback
  that the compiler makes, in order, and what the call comes to: it throws before it
  returns a promise, or the promise it returns never settles, or that promise settles,
  rejected or fulfilled with the bytes. \<open>WebAssembly_compile\<close> is the host's validation
  of the bytes, which always returns a promise: \<open>None\<close> when that promise never settles,
  otherwise rejected with a message or fulfilled with a module.
\<close>

type_synonym callback_call = "int \<times> string \<times> int \<times> int"

datatype compile_outcome =
    Throws js_error
  | NeverSettles
  | Settles "js_error + byte list"

record ('tree, 'wm) compile_env =
  slang_parse :: "string \<Rightarrow> source_error list \<Rightarrow> 'tree option \<times> source_error list"
  JSON_stringify :: "'tree \<Rightarrow> string"
  create_context :: nat
  Sourceror_compile :: "nat \<Rightarrow> string \<Rightarrow> string \<Rightarrow> callback_call list \<times> compile_outcome"
  WebAssembly_compile :: "byte list \<Rightarrow> (string + 'wm) option"

text \<open>
  The calls that \<open>compile\<close> makes to the compiler and to the host are recorded in order,
  beside the sink and the local variable \<open>has_errors\<close>.
\<close>

datatype compile_call =
    CreateContext nat
  | SourcerorCompile nat string string
  | WebAssemblyCompile "byte list"
  | DestroyContext nat

record compile_state =
  c_errors :: "source_error list"
  has_errors :: bool
  c_calls :: "compile_call list"

definition callback_diagnostic :: "callback_call \<Rightarrow> source_error" where
  "callback_diagnostic c =
     (case c of (severity_code, message, ln, col) \<Rightarrow>
        \<lparr>err_type = SYNTAX,
         severity = (if severity_code \<ge> 4 then ERROR else WARNING),
         location = \<lparr>source = None,
                     loc_start = \<lparr>line = ln, column = col\<rparr>,
                     loc_end = \<lparr>line = ln, column = col + 1\<rparr>\<rparr>,
         explain = message,
         elaborate = []\<rparr>)"

definition diagnostic_callback :: "callback_call \<Rightarrow> compile_state \<Rightarrow> compile_state" where
  "diagnostic_callback c s =
     s\<lparr>has_errors := (if fst c \<ge> 4 then True else has_errors s),
       c_errors := c_errors s @ [callback_diagnostic c]\<rparr>"

definition validation_diagnostic :: "string \<Rightarrow> source_error" where
  "validation_diagnostic err =
     \<lparr>err_type = SYNTAX,
      severity = ERROR,
      location = \<lparr>source = None,
                  loc_start = \<lparr>line = 0, column = 0\<rparr>,
                  loc_end = \<lparr>line = 0, column = 0\<rparr>\<rparr>,
      explain = err,
      elaborate = ''Your browser's WebAssembly engine is unable to compile the WebAssembly binary produced by Sourceror.  This is probably a bug in Sourceror; please report it.''\<rparr>"

text \<open>The first \<open>then\<close>: what is done with the bytes.\<close>

definition then_wasm_binary ::
  "('tree, 'wm) compile_env \<Rightarrow> byte list \<Rightarrow> compile_state \<Rightarrow> 'wm promise \<times> compile_state" where
  "then_wasm_binary env wasm_binary s =
     (if \<not> has_errors s then
        (case WebAssembly_compile env wasm_binary of
           Some (Inr x) \<Rightarrow>
             (Fulfilled x, s\<lparr>c_calls := c_calls s @ [WebAssemblyCompile wasm_binary]\<rparr>)
         | Some (Inl err) \<Rightarrow>
             (Rejected (CompileError ''WebAssembly compilation error''),
              s\<lparr>c_calls := c_calls s @ [WebAssemblyCompile wasm_binary],
                c_errors := c_errors s @ [validation_diagnostic err]\<rparr>)
         | None \<Rightarrow> (Pending, s\<lparr>c_calls := c_calls s @ [WebAssemblyCompile wasm_binary]\<rparr>))
      else (Rejected (CompileError ''Syntax error''), s))"

text \<open>
  The second \<open>then\<close> has a handler for each way the promise before it settles. Both
  destroy the context and both return their argument, so the promise that \<open>compile\<close>
  returns is fulfilled in both cases: with the module, or with the value the earlier
  promise was rejected with. While the promise before it is pending neither handler runs.
\<close>

datatype 'wm compile_value = Module 'wm | ErrorValue js_error

definition then_destroy ::
  "nat \<Rightarrow> 'wm promise \<Rightarrow> compile_state \<Rightarrow> 'wm compile_value promise \<times> compile_state" where
  "then_destroy wasm_context p s =
     (case p of
        Fulfilled x \<Rightarrow>
          (Fulfilled (Module x), s\<lparr>c_calls := c_calls s @ [DestroyContext wasm_context]\<rparr>)
      | Rejected e \<Rightarrow>
          (Fulfilled (ErrorValue e), s\<lparr>c_calls := c_calls s @ [DestroyContext wasm_context]\<rparr>)
      | Pending \<Rightarrow> (Pending, s))"

text \<open>
  \<open>compile\<close> is an \<open>async\<close> function and the call of \<open>Sourceror.compile\<close> is not
  inside a \<open>try\<close>: when it throws, the exception leaves the function, whose promise is
  rejected with it, and the chain of \<open>then\<close> is never built.
\<close>

definition compile ::
  "('tree, 'wm) compile_env \<Rightarrow> string \<Rightarrow> source_error list \<Rightarrow>
   'wm compile_value promise \<times> source_error list \<times> compile_call list" where
  "compile env code sink =
     (case slang_parse env code sink of
        (None, sink') \<Rightarrow>
          (Rejected (CompileError ''js-slang cannot parse the program''), sink', [])
      | (Some estree, sink') \<Rightarrow>
          (let es_str = JSON_stringify env estree;
               wasm_context = create_context env;
               s0 = \<lparr>c_errors = sink', has_errors = False,
                     c_calls = [CreateContext wasm_context,
                                SourcerorCompile wasm_context es_str []]\<rparr>
           in case Sourceror_compile env wasm_context es_str [] of
                (callbacks, outcome) \<Rightarrow>
                  (let s1 = fold diagnostic_callback callbacks s0 in
                   case outcome of
                     Throws e \<Rightarrow> (Rejected e, c_errors s1, c_calls s1)
                   | NeverSettles \<Rightarrow>
                       (case then_destroy wasm_context Pending s1 of
                          (r, s3) \<Rightarrow> (r, c_errors s3, c_calls s3))
                   | Settles settled \<Rightarrow>
                       (case (case settled of
                                Inl e \<Rightarrow> (Rejected e, s1)
                              | Inr wasm_binary \<Rightarrow> then_wasm_binary env wasm_binary s1) of
                          (p, s2) \<Rightarrow>
                            (case then_destroy wasm_context p s2 of
                               (r, s3) \<Rightarrow> (r, c_errors s3, c_calls s3))))))"




section \<open>Execution\<close>

text \<open>
  An instance exports \<open>main\<close> and \<open>linear_memory\<close>, and it may have a start function,
  which runs during instantiation. What a function of the module does is a sequence of
  steps: a store of a byte into the linear memory (a trap when the address is outside it),
  a call of the import \<open>core.error\<close>, a trap, or a block \<open>TryCatch body handler\<close> that
  runs \<open>body\<close> and, when an import called in it throws, catches the exception and runs
  \<open>handler\<close>. A trap cannot be caught by the module. An exception that no block catches
  unwinds the module's frames and leaves the function as that exception.
\<close>

datatype action =
    Store nat byte
  | CallError int int int int int
  | Trap
  | TryCatch "action list" "action list"

record wasm_instance =
  start :: "action list"
  main :: "action list"
  memory :: "byte list"

datatype run_call = Instantiate | CallMain | ReadJsResult

record run_state =
  r_errors :: "source_error list"
  linear_memory :: "byte list"
  r_calls :: "run_call list"

record 'wm run_env =
  WebAssembly_instantiate :: "'wm \<Rightarrow> js_error + wasm_instance"
  toString :: "js_error \<Rightarrow> string"

definition fault_diagnostic :: "int \<Rightarrow> int \<Rightarrow> int \<Rightarrow> source_error" where
  "fault_diagnostic code ln col =
     (case stringifySourcerorRuntimeErrorCode code of
        (explain_text, elaborate_text) \<Rightarrow>
          \<lparr>err_type = RUNTIME,
           severity = ERROR,
           location = \<lparr>source = None,
                       loc_start = \<lparr>line = ln, column = col\<rparr>,
                       loc_end = \<lparr>line = ln, column = col + 1\<rparr>\<rparr>,
           explain = explain_text,
           elaborate = elaborate_text\<rparr>)"

text \<open>The import \<open>core.error\<close>: it never returns, it throws \<open>propagationToken\<close>.\<close>

definition core_error ::
  "int \<Rightarrow> int \<Rightarrow> int \<Rightarrow> int \<Rightarrow> int \<Rightarrow> run_state \<Rightarrow> js_error \<times> run_state" where
  "core_error code detail file ln col s =
     (PropagationToken, s\<lparr>r_errors := r_errors s @ [fault_diagnostic code ln col]\<rparr>)"

text \<open>
  Running a function of the module: \<open>None\<close> is a normal return, \<open>Some e\<close> the exception
  it leaves with.
\<close>

fun call_function :: "action list \<Rightarrow> run_state \<Rightarrow> js_error option \<times> run_state" where
  "call_function [] s = (None, s)"
| "call_function (Store a v # rest) s =
     (if a < length (linear_memory s)
      then call_function rest (s\<lparr>linear_memory := (linear_memory s)[a := v]\<rparr>)
      else (Some WasmTrap, s))"
| "call_function (CallError code detail file ln col # rest) s =
     (case core_error code detail file ln col s of (e, s') \<Rightarrow> (Some e, s'))"
| "call_function (Trap # rest) s = (Some WasmTrap, s)"
| "call_function (TryCatch body handler # rest) s =
     (case call_function body s of
        (None, s') \<Rightarrow> call_function rest s'
      | (Some e, s') \<Rightarrow>
          if e = WasmTrap then (Some e, s')
          else (case call_function handler s' of
                  (None, s'') \<Rightarrow> call_function rest s''
                | (Some e', s'') \<Rightarrow> (Some e', s'')))"

definition failure_diagnostic :: "string \<Rightarrow> source_error" where
  "failure_diagnostic text =
     \<lparr>err_type = RUNTIME,
      severity = ERROR,
      location = \<lparr>source = None,
                  loc_start = \<lparr>line = 0, column = 0\<rparr>,
                  loc_end = \<lparr>line = 0, column = 0\<rparr>\<rparr>,
      explain = text,
      elaborate = text\<rparr>"

text \<open>The \<open>catch\<close> clause around the call of \<open>main\<close> and of \<open>read_js_result\<close>.\<close>

definition catch_clause ::
  "'wm run_env \<Rightarrow> js_error \<Rightarrow> run_state \<Rightarrow> js_value promise \<times> run_state" where
  "catch_clause env e s =
     (if e = PropagationToken then (Rejected (RuntimeError ''runtime error''), s)
      else (Rejected e,
            s\<lparr>r_errors := r_errors s @ [failure_diagnostic (toString env e)]\<rparr>))"

text \<open>
  \<open>WebAssembly.instantiate\<close> is rejected when the module cannot be instantiated and when
  its start function leaves with an exception; the \<open>then\<close> that follows has no handler
  for a rejection, so \<open>run\<close> is then rejected with the same value.
\<close>

definition run ::
  "'wm run_env \<Rightarrow> 'wm \<Rightarrow> source_error list \<Rightarrow> js_value promise \<times> run_state" where
  "run env wasm_module sink =
     (case WebAssembly_instantiate env wasm_module of
        Inl e \<Rightarrow> (Rejected e, \<lparr>r_errors = sink, linear_memory = [], r_calls = [Instantiate]\<rparr>)
      | Inr inst \<Rightarrow>
          (case call_function (start inst)
                  \<lparr>r_errors = sink, linear_memory = memory inst, r_calls = [Instantiate]\<rparr> of
             (Some e, s) \<Rightarrow> (Rejected e, s)
           | (None, s0) \<Rightarrow>
               (case call_function (main inst) (s0\<lparr>r_calls := r_calls s0 @ [CallMain]\<rparr>) of
                  (Some e, s) \<Rightarrow> catch_clause env e s
                | (None, s) \<Rightarrow>
                    (let s' = s\<lparr>r_calls := r_calls s @ [ReadJsResult]\<rparr> in
                     case read_js_result (linear_memory s') of
                       Inl e \<Rightarrow> catch_clause env e s'
                     | Inr v \<Rightarrow> (Fulfilled v, s')))))"

section \<open>Sample collaborators\<close>

text \<open>
  An environment for concrete runs of \<open>compile\<close>: the parser yields \<open>tree\<close> and appends
  \<open>parser_errors\<close> to the sink, the tree is its own serialization, the context handle is
  1, the call of the compiler makes the given callback invocations and comes to the given
  outcome, and the host's validation of every byte sequence settles, or not, as given.
\<close>

definition example_env ::
  "string option \<Rightarrow> source_error list \<Rightarrow> callback_call list \<Rightarrow> compile_outcome \<Rightarrow>
   (string + nat) option \<Rightarrow> (string, nat) compile_env" where
  "example_env tree parser_errors callbacks outcome validated =
     \<lparr>slang_parse = (\<lambda>code sink. (tree, sink @ parser_errors)),
      JSON_stringify = (\<lambda>estree. estree),
      create_context = 1,
      Sourceror_compile = (\<lambda>wasm_context es_str aux. (callbacks, outcome)),
      WebAssembly_compile = (\<lambda>wasm_binary. validated)\<rparr>"

text \<open>
  An environment for concrete runs of \<open>run\<close>: instantiation yields the given instance.
\<close>

definition example_run_env :: "wasm_instance \<Rightarrow> nat run_env" where
  "example_run_env inst =
     \<lparr>WebAssembly_instantiate = (\<lambda>wasm_module. Inr inst),
      toString = (\<lambda>e. ''error'')\<rparr>"

text \<open>
  A step that is a store inside a memory of \<open>n\<close> bytes, and what a store does to the
  memory.
\<close>

definition is_store_within :: "nat \<Rightarrow> action \<Rightarrow> bool" where
  "is_store_within n a = (case a of Store addr v \<Rightarrow> addr < n | _ \<Rightarrow> False)"

definition store_effect :: "action \<Rightarrow> byte list \<Rightarrow> byte list" where
  "store_effect a m = (case a of Store addr v \<Rightarrow> m[addr := v] | _ \<Rightarrow> m)"

section \<open>The layout of the tagged value region, as specified\<close>

text \<open>
  The specification speaks of the 4-byte little-endian unsigned integer at a byte offset,
  of the 8 bytes of a double at a byte offset, and of \<open>len\<close> bytes starting at an offset.
  These are written out here byte by byte, to be compared with what \<open>read_js_result\<close>
  reads. They are meaningful only where the bytes lie inside the memory.
\<close>

definition u32_at :: "byte list \<Rightarrow> nat \<Rightarrow> nat" where
  "u32_at m off =
     unat (m ! off) + 2 ^ 8 * unat (m ! (off + 1)) + 2 ^ 16 * unat (m ! (off + 2)) +
     2 ^ 24 * unat (m ! (off + 3))"

definition u64_at :: "byte list \<Rightarrow> nat \<Rightarrow> nat" where
  "u64_at m off =
     unat (m ! off) + 2 ^ 8 * unat (m ! (off + 1)) + 2 ^ 16 * unat (m ! (off + 2)) +
     2 ^ 24 * unat (m ! (off + 3)) + 2 ^ 32 * unat (m ! (off + 4)) +
     2 ^ 40 * unat (m ! (off + 5)) + 2 ^ 48 * unat (m ! (off + 6)) +
     2 ^ 56 * unat (m ! (off + 7))"

definition bytes_at :: "byte list \<Rightarrow> nat \<Rightarrow> nat \<Rightarrow> byte list" where
  "bytes_at m off len = map (\<lambda>i. m ! (off + i)) [0..<len]"






text \<open>
  Concrete memories of \<open>1 << 20\<close> bytes: \<open>memory_image heap region\<close> has \<open>heap\<close> at
  address 0 and the 12 bytes \<open>region\<close> (tag, then data) at \<open>(1 << 20) - 12\<close>;
  \<open>tagged_memory\<close> holds a tag below 256 and 8 bytes of data; \<open>string_memory s\<close> holds
  tag 4, the pointer 0 and, at address 0, the length of the ASCII text \<open>s\<close> (below 256)
  followed by its bytes; \<open>text_memory\<close> is the same for any bytes, fewer than 256.
\<close>

definition memory_image :: "byte list \<Rightarrow> byte list \<Rightarrow> byte list" where
  "memory_image heap region = heap @ replicate (1048564 - length heap) 0 @ region"

definition tagged_memory :: "byte \<Rightarrow> byte list \<Rightarrow> byte list" where
  "tagged_memory tag data = memory_image [] ([tag, 0, 0, 0] @ data)"

definition string_memory :: "string \<Rightarrow> byte list" where
  "string_memory s =
     memory_image ([of_nat (length s), 0, 0, 0] @ map (\<lambda>c. of_nat (of_char c)) s)
       [4, 0, 0, 0, 0, 0, 0, 0, 0, 0, 0, 0]"


section \<open>The fault-code table\<close>

text \<open>
  Claim C9. \<open>stringifySourcerorRuntimeErrorCode\<close> maps the seven codes 0x0, 0x1, 0x10,
  0x12, 0x13, 0x16 and 0x17 to their fixed pairs of explanation and elaboration (0x1 to
  the out-of-memory explanation whose elaboration recommends recompiling with more heap
  space), and a code gets the generic unknown-runtime-error pair exactly when it is none
  of the seven.
\<close>

theorem stringify_fault_code_table:
  "stringifySourcerorRuntimeErrorCode 0x0 = (''General runtime error'', '''') \<and>
   stringifySourcerorRuntimeErrorCode 0x1 =
     (''Out of memory'',
      ''Strings and objects are allocated on the heap.  You have exhausted the available heap space.  Try recompiling your program with increased heap space.'') \<and>
   stringifySourcerorRuntimeErrorCode 0x10 = (''General runtime type error'', '''') \<and>
   stringifySourcerorRuntimeErrorCode 0x12 =
     (''Unary operator called with incorrect parameter type'', '''') \<and>
   stringifySourcerorRuntimeErrorCode 0x13 =
     (''Binary operator called with incorrect parameter type'', '''') \<and>
   stringifySourcerorRuntimeErrorCode 0x16 =
     (''Function call operator applied on a non-function'', '''') \<and>
   stringifySourcerorRuntimeErrorCode 0x17 = (''If statement has a non-boolean condition'', '''') \<and>
   (stringifySourcerorRuntimeErrorCode code =
      (''Unknown runtime error'', ''This is probably a bug in Sourceror; please report it.'')
    \<longleftrightarrow> code \<notin> {0x0, 0x1, 0x10, 0x12, 0x13, 0x16, 0x17})"
  by simp

theorem stringify_fault_code_table_witness:
  "(2::int) \<notin> {0x0, 0x1, 0x10, 0x12, 0x13, 0x16, 0x17} \<and>
   stringifySourcerorRuntimeErrorCode 2 =
     (''Unknown runtime error'', ''This is probably a bug in Sourceror; please report it.'') \<and>
   stringifySourcerorRuntimeErrorCode 0x1 \<noteq> stringifySourcerorRuntimeErrorCode 2"
  using stringify_fault_code_table [of 2] by simp

section \<open>Properties of compilation\<close>

lemma fold_callback_errors:
  "c_errors (fold diagnostic_callback cbs s) = c_errors s @ map callback_diagnostic cbs"
  by (induction cbs arbitrary: s) (simp_all add: diagnostic_callback_def)

lemma fold_callback_calls:
  "c_calls (fold diagnostic_callback cbs s) = c_calls s"
  by (induction cbs arbitrary: s) (simp_all add: diagnostic_callback_def)

lemma fold_callback_has_errors:
  "has_errors (fold diagnostic_callback cbs s) \<longleftrightarrow> has_errors s \<or> (\<exists>c \<in> set cbs. fst c \<ge> 4)"
  by (induction cbs arbitrary: s) (auto simp add: diagnostic_callback_def)

lemma callback_diagnostic_severity:
  "severity (callback_diagnostic c) = (if fst c \<ge> 4 then ERROR else WARNING)"
  by (cases c) (simp add: callback_diagnostic_def)

text \<open>
  Claim C8. When the parser yields no tree, \<open>compile\<close> is rejected with the parse-failure
  \<open>CompileError\<close>, it makes no call to the compiler or the host (no context is created),
  and the sink is as the parser left it: \<open>compile\<close> itself appends nothing.
\<close>

theorem compile_parse_failure:
  assumes "slang_parse env code sink = (None, sink')"
  shows "compile env code sink =
           (Rejected (CompileError ''js-slang cannot parse the program''), sink', [])"
  using assms by (simp add: compile_def)

theorem compile_parse_failure_witness:
  "compile (example_env None [] [] (Settles (Inr [0, 97, 115, 109])) (Some (Inr 7))) ''1 +'' [] =
     (Rejected (CompileError ''js-slang cannot parse the program''), [], [])"
  using compile_parse_failure
          [of "example_env None [] [] (Settles (Inr [0, 97, 115, 109])) (Some (Inr 7))" "''1 +''" "[]" "[]"]
  by (simp add: example_env_def)

text \<open>
  Claim C7. When the parser yields a tree, the compiler fulfils with bytes after callback
  invocations that all have a severity code below 4, and the host validates the bytes,
  \<open>compile\<close> is fulfilled with the validated module; it appends one diagnostic for each
  callback invocation and nothing else, and each of them has severity \<open>WARNING\<close>.
\<close>

theorem compile_success:
  assumes parse: "slang_parse env code sink = (Some estree, sink')"
    and bytes: "Sourceror_compile env (create_context env) (JSON_stringify env estree) [] =
                  (callbacks, Settles (Inr wasm_binary))"
    and quiet: "\<forall>c \<in> set callbacks. fst c < 4"
    and valid: "WebAssembly_compile env wasm_binary = Some (Inr x)"
  shows "compile env code sink =
           (Fulfilled (Module x),
            sink' @ map callback_diagnostic callbacks,
            [CreateContext (create_context env),
             SourcerorCompile (create_context env) (JSON_stringify env estree) [],
             WebAssemblyCompile wasm_binary,
             DestroyContext (create_context env)])
         \<and> (\<forall>d \<in> set (map callback_diagnostic callbacks). severity d = WARNING)"
proof -
  let ?s0 = "\<lparr>c_errors = sink', has_errors = False,
              c_calls = [CreateContext (create_context env),
                         SourcerorCompile (create_context env) (JSON_stringify env estree) []]\<rparr>"
  from quiet have "\<not> has_errors (fold diagnostic_callback callbacks ?s0)"
    by (auto simp add: fold_callback_has_errors)
  then have "compile env code sink =
           (Fulfilled (Module x),
            sink' @ map callback_diagnostic callbacks,
            [CreateContext (create_context env),
             SourcerorCompile (create_context env) (JSON_stringify env estree) [],
             WebAssemblyCompile wasm_binary,
             DestroyContext (create_context env)])"
    using parse bytes valid
    by (simp add: compile_def Let_def then_wasm_binary_def then_destroy_def
        fold_callback_errors fold_callback_calls)
  moreover from quiet have "\<forall>d \<in> set (map callback_diagnostic callbacks). severity d = WARNING"
    by (auto simp add: callback_diagnostic_severity)
  ultimately show ?thesis by simp
qed

theorem compile_success_witness:
  "compile (example_env (Some ''{}'') [] [(2, ''Unused name'', 1, 0), (3, ''Shadowed name'', 2, 4)]
              (Settles (Inr [0, 97, 115, 109])) (Some (Inr 7))) ''1;'' [] =
     (Fulfilled (Module 7),
      [callback_diagnostic (2, ''Unused name'', 1, 0),
       callback_diagnostic (3, ''Shadowed name'', 2, 4)],
      [CreateContext 1, SourcerorCompile 1 ''{}'' [], WebAssemblyCompile [0, 97, 115, 109],
       DestroyContext 1])
   \<and> severity (callback_diagnostic (2, ''Unused name'', 1, 0)) = WARNING
   \<and> severity (callback_diagnostic (3, ''Shadowed name'', 2, 4)) = WARNING"
  using compile_success
          [of "example_env (Some ''{}'') [] [(2, ''Unused name'', 1, 0), (3, ''Shadowed name'', 2, 4)]
                 (Settles (Inr [0, 97, 115, 109])) (Some (Inr 7))"
              "''1;''" "[]" "''{}''" "[]"
              "[(2, ''Unused name'', 1, 0), (3, ''Shadowed name'', 2, 4)]"
              "[0, 97, 115, 109]" 7]
  by (simp add: example_env_def)




text \<open>
  What \<open>compile\<close> does on its two failure paths after the bytes, for all collaborators:
  the promise it returns is fulfilled with the \<open>CompileError\<close> as its value.
\<close>

lemma compile_syntax_error_general:
  assumes parse: "slang_parse env code sink = (Some estree, sink')"
    and bytes: "Sourceror_compile env (create_context env) (JSON_stringify env estree) [] =
                  (callbacks, Settles (Inr wasm_binary))"
    and loud: "\<exists>c \<in> set callbacks. fst c \<ge> 4"
  shows "compile env code sink =
           (Fulfilled (ErrorValue (CompileError ''Syntax error'')),
            sink' @ map callback_diagnostic callbacks,
            [CreateContext (create_context env),
             SourcerorCompile (create_context env) (JSON_stringify env estree) [],
             DestroyContext (create_context env)])"
proof -
  let ?s0 = "\<lparr>c_errors = sink', has_errors = False,
              c_calls = [CreateContext (create_context env),
                         SourcerorCompile (create_context env) (JSON_stringify env estree) []]\<rparr>"
  from loud have "has_errors (fold diagnostic_callback callbacks ?s0)"
    by (simp add: fold_callback_has_errors)
  then show ?thesis
    using parse bytes
    by (simp add: compile_def Let_def then_wasm_binary_def then_destroy_def
        fold_callback_errors fold_callback_calls)
qed

lemma compile_validation_failure_general:
  assumes parse: "slang_parse env code sink = (Some estree, sink')"
    and bytes: "Sourceror_compile env (create_context env) (JSON_stringify env estree) [] =
                  (callbacks, Settles (Inr wasm_binary))"
    and quiet: "\<forall>c \<in> set callbacks. fst c < 4"
    and invalid: "WebAssembly_compile env wasm_binary = Some (Inl err)"
  shows "compile env code sink =
           (Fulfilled (ErrorValue (CompileError ''WebAssembly compilation error'')),
            sink' @ map callback_diagnostic callbacks @ [validation_diagnostic err],
            [CreateContext (create_context env),
             SourcerorCompile (create_context env) (JSON_stringify env estree) [],
             WebAssemblyCompile wasm_binary,
             DestroyContext (create_context env)])"
proof -
  let ?s0 = "\<lparr>c_errors = sink', has_errors = False,
              c_calls = [CreateContext (create_context env),
                         SourcerorCompile (create_context env) (JSON_stringify env estree) []]\<rparr>"
  from quiet have "\<not> has_errors (fold diagnostic_callback callbacks ?s0)"
    by (auto simp add: fold_callback_has_errors)
  then show ?thesis
    using parse bytes invalid
    by (simp add: compile_def Let_def then_wasm_binary_def then_destroy_def
        fold_callback_errors fold_callback_calls)
qed

text \<open>
  Claim C1. A compilation with one callback invocation of severity code 4 in which the
  compiler yields bytes: the host validation is not called and no module is produced, and
  the context is destroyed, but the promise that \<open>compile\<close> returns is not rejected. The
  rejection handler of the last \<open>then\<close> returns the error, so the promise is fulfilled
  with the \<open>CompileError\<close> as its value.
\<close>

theorem compile_syntax_error_fulfilled:
  "compile (example_env (Some ''{}'') [] [(4, ''Name x not declared'', 1, 0)]
              (Settles (Inr [0, 97, 115, 109])) (Some (Inr 7))) ''x;'' [] =
     (Fulfilled (ErrorValue (CompileError ''Syntax error'')),
      [\<lparr>err_type = SYNTAX, severity = ERROR,
        location = \<lparr>source = None,
                    loc_start = \<lparr>line = 1, column = 0\<rparr>,
                    loc_end = \<lparr>line = 1, column = 1\<rparr>\<rparr>,
        explain = ''Name x not declared'', elaborate = []\<rparr>],
      [CreateContext 1, SourcerorCompile 1 ''{}'' [], DestroyContext 1])"
  by (simp add: compile_def example_env_def Let_def then_wasm_binary_def then_destroy_def
      diagnostic_callback_def callback_diagnostic_def)

text \<open>
  Claim C4. A compilation without an error-severity callback whose bytes the host
  rejects: exactly one diagnostic is appended after those of the callbacks, with kind
  \<open>SYNTAX\<close>, severity \<open>ERROR\<close>, location (0,0)-(0,0), the host's message as explanation
  and the note about a probable compiler defect as elaboration; but the promise that
  \<open>compile\<close> returns is not rejected, it is fulfilled with the \<open>CompileError\<close> as its
  value, for the same reason as in C1.
\<close>

theorem compile_validation_failure_fulfilled:
  "compile (example_env (Some ''{}'') [] [(2, ''Unused name'', 1, 0)]
              (Settles (Inr [0, 97, 115, 109])) (Some (Inl ''bad magic''))) ''1;'' [] =
     (Fulfilled (ErrorValue (CompileError ''WebAssembly compilation error'')),
      [callback_diagnostic (2, ''Unused name'', 1, 0),
       \<lparr>err_type = SYNTAX, severity = ERROR,
        location = \<lparr>source = None,
                    loc_start = \<lparr>line = 0, column = 0\<rparr>,
                    loc_end = \<lparr>line = 0, column = 0\<rparr>\<rparr>,
        explain = ''bad magic'',
        elaborate = ''Your browser's WebAssembly engine is unable to compile the WebAssembly binary produced by Sourceror.  This is probably a bug in Sourceror; please report it.''\<rparr>],
      [CreateContext 1, SourcerorCompile 1 ''{}'' [], WebAssemblyCompile [0, 97, 115, 109],
       DestroyContext 1])"
  by (simp add: compile_def example_env_def Let_def then_wasm_binary_def then_destroy_def
      diagnostic_callback_def validation_diagnostic_def)

section \<open>Properties of execution\<close>

lemma call_function_append:
  "call_function (before @ rest) s =
     (case call_function before s of
        (None, s') \<Rightarrow> call_function rest s'
      | (Some e, s') \<Rightarrow> (Some e, s'))"
  by (induction before s rule: call_function.induct)
     (simp_all add: core_error_def split: prod.splits option.splits)

lemma call_function_calls:
  "r_calls (snd (call_function acts s)) = r_calls s"
proof (induction acts s rule: call_function.induct)
  case (5 body handler rest s)
  obtain r s' where body: "call_function body s = (r, s')"
    by (cases "call_function body s")
  with "5.IH"(1) have s': "r_calls s' = r_calls s"
    by simp
  show ?case
  proof (cases r)
    case None
    with body "5.IH"(2) [of None s'] s' show ?thesis
      by simp
  next
    case (Some e)
    show ?thesis
    proof (cases "e = WasmTrap")
      case True
      with Some body s' show ?thesis
        by simp
    next
      case False
      obtain r' s'' where handler: "call_function handler s' = (r', s'')"
        by (cases "call_function handler s'")
      with "5.IH"(3) [of "Some e" s' e] Some body False have s'': "r_calls s'' = r_calls s'"
        by simp
      show ?thesis
      proof (cases r')
        case None
        with "5.IH"(4) [of "Some e" s' e None s''] Some body False handler s' s''
        show ?thesis
          by simp
      next
        case (Some e')
        with \<open>r = Some e\<close> body False handler s' s'' show ?thesis
          by simp
      qed
    qed
  qed
qed (simp_all add: core_error_def)

text \<open>
  Claim C5, as stated, fails in two ways. A module whose \<open>main\<close> calls the fault import
  inside a block that catches the exception goes on: the store after the call takes
  effect, \<open>read_js_result\<close> is called and \<open>run\<close> is fulfilled. A module whose start
  function calls the fault import makes \<open>run\<close> be rejected with the thrown token itself,
  not with a \<open>RuntimeError\<close>. In both the diagnostic is appended.
\<close>

theorem run_fault_caught_or_early:
  "run (example_run_env
          \<lparr>start = [],
           main = [TryCatch [CallError 1 0 0 3 5] [], Store 1048568 1],
           memory = tagged_memory 3 [0, 0, 0, 0, 0, 0, 0, 0]\<rparr>) (0::nat) [] =
     (Fulfilled (JSBoolean True),
      \<lparr>r_errors =
         [\<lparr>err_type = RUNTIME, severity = ERROR,
           location = \<lparr>source = None,
                       loc_start = \<lparr>line = 3, column = 5\<rparr>,
                       loc_end = \<lparr>line = 3, column = 6\<rparr>\<rparr>,
           explain = ''Out of memory'',
           elaborate = ''Strings and objects are allocated on the heap.  You have exhausted the available heap space.  Try recompiling your program with increased heap space.''\<rparr>],
       linear_memory = tagged_memory 3 [1, 0, 0, 0, 0, 0, 0, 0],
       r_calls = [Instantiate, CallMain, ReadJsResult]\<rparr>)
   \<and> run (example_run_env
          \<lparr>start = [CallError 1 0 0 3 5], main = [], memory = [0, 0, 0, 0]\<rparr>) (0::nat) [] =
     (Rejected PropagationToken,
      \<lparr>r_errors =
         [\<lparr>err_type = RUNTIME, severity = ERROR,
           location = \<lparr>source = None,
                       loc_start = \<lparr>line = 3, column = 5\<rparr>,
                       loc_end = \<lparr>line = 3, column = 6\<rparr>\<rparr>,
           explain = ''Out of memory'',
           elaborate = ''Strings and objects are allocated on the heap.  You have exhausted the available heap space.  Try recompiling your program with increased heap space.''\<rparr>],
       linear_memory = [0, 0, 0, 0],
       r_calls = [Instantiate]\<rparr>)"
  by (simp add: run_def example_run_env_def core_error_def catch_clause_def Let_def
      fault_diagnostic_def tagged_memory_def memory_image_def list_update_append
      read_js_result_def getUint32_def tag_offset_def data_offset_def)

text \<open>
  Claim C5, amended. Let the start function, if any, return normally, and let \<open>main\<close>
  reach, after steps that return normally, a call of the fault import that is a step of
  \<open>main\<close> itself, outside every block of the module that catches. Then \<open>run\<close> is rejected
  with \<open>RuntimeError\<close> "runtime error"; the call appends exactly one diagnostic to the
  sink as it was at the call, of kind \<open>RUNTIME\<close> and severity \<open>ERROR\<close>, located at
  (line, column)-(line, column + 1), with the pair that the table gives for the code;
  the memory stays as it was at the call, whatever follows the call in \<open>main\<close>; and the
  calls made are instantiation and \<open>main\<close>, not \<open>read_js_result\<close>.
\<close>

theorem run_fault:
  assumes inst: "WebAssembly_instantiate env wasm_module = Inr inst"
    and started: "call_function (start inst)
                    \<lparr>r_errors = sink, linear_memory = memory inst, r_calls = [Instantiate]\<rparr> =
                  (None, s0)"
    and site: "main inst = before @ CallError code detail file ln col # after"
    and reached: "call_function before (s0\<lparr>r_calls := r_calls s0 @ [CallMain]\<rparr>) = (None, s1)"
  shows "run env wasm_module sink =
           (Rejected (RuntimeError ''runtime error''),
            s1\<lparr>r_errors := r_errors s1 @
               [\<lparr>err_type = RUNTIME, severity = ERROR,
                 location = \<lparr>source = None,
                             loc_start = \<lparr>line = ln, column = col\<rparr>,
                             loc_end = \<lparr>line = ln, column = col + 1\<rparr>\<rparr>,
                 explain = fst (stringifySourcerorRuntimeErrorCode code),
                 elaborate = snd (stringifySourcerorRuntimeErrorCode code)\<rparr>]\<rparr>)
         \<and> r_calls s1 = [Instantiate, CallMain]"
proof -
  from call_function_calls [of "start inst"
      "\<lparr>r_errors = sink, linear_memory = memory inst, r_calls = [Instantiate]\<rparr>"] started
  have c0: "r_calls s0 = [Instantiate]"
    by simp
  from call_function_calls [of before "s0\<lparr>r_calls := r_calls s0 @ [CallMain]\<rparr>"] reached c0
  have c1: "r_calls s1 = [Instantiate, CallMain]"
    by simp
  have "call_function (main inst) (s0\<lparr>r_calls := r_calls s0 @ [CallMain]\<rparr>) =
          call_function (CallError code detail file ln col # after) s1"
    unfolding site call_function_append reached by simp
  then have "run env wasm_module sink =
           (Rejected (RuntimeError ''runtime error''),
            s1\<lparr>r_errors := r_errors s1 @
               [\<lparr>err_type = RUNTIME, severity = ERROR,
                 location = \<lparr>source = None,
                             loc_start = \<lparr>line = ln, column = col\<rparr>,
                             loc_end = \<lparr>line = ln, column = col + 1\<rparr>\<rparr>,
                 explain = fst (stringifySourcerorRuntimeErrorCode code),
                 elaborate = snd (stringifySourcerorRuntimeErrorCode code)\<rparr>]\<rparr>)"
    using inst started
    by (simp add: run_def core_error_def catch_clause_def fault_diagnostic_def
        split: prod.splits)
  with c1 show ?thesis by simp
qed

theorem run_fault_witness:
  "run (example_run_env
          \<lparr>start = [Store 3 2],
           main = [Store 0 7, TryCatch [CallError 0 0 0 1 1, Store 2 8] [Store 2 9],
                   CallError 1 0 0 3 5, Store 1 9],
           memory = [0, 0, 0, 0]\<rparr>)
       (0::nat) [] =
     (Rejected (RuntimeError ''runtime error''),
      \<lparr>r_errors =
         [\<lparr>err_type = RUNTIME, severity = ERROR,
           location = \<lparr>source = None,
                       loc_start = \<lparr>line = 1, column = 1\<rparr>,
                       loc_end = \<lparr>line = 1, column = 2\<rparr>\<rparr>,
           explain = ''General runtime error'',
           elaborate = []\<rparr>,
          \<lparr>err_type = RUNTIME, severity = ERROR,
           location = \<lparr>source = None,
                       loc_start = \<lparr>line = 3, column = 5\<rparr>,
                       loc_end = \<lparr>line = 3, column = 6\<rparr>\<rparr>,
           explain = ''Out of memory'',
           elaborate = ''Strings and objects are allocated on the heap.  You have exhausted the available heap space.  Try recompiling your program with increased heap space.''\<rparr>],
       linear_memory = [7, 0, 9, 2],
       r_calls = [Instantiate, CallMain]\<rparr>)"
proof -
  let ?inst = "\<lparr>start = [Store 3 2],
                main = [Store 0 7, TryCatch [CallError 0 0 0 1 1, Store 2 8] [Store 2 9],
                        CallError 1 0 0 3 5, Store 1 9],
                memory = [0, 0, 0, 0]\<rparr>"
  let ?s0 = "\<lparr>r_errors = [], linear_memory = [0, 0, 0, 2], r_calls = [Instantiate]\<rparr>"
  let ?s1 = "\<lparr>r_errors = [fault_diagnostic 0 1 1], linear_memory = [7, 0, 9, 2],
              r_calls = [Instantiate, CallMain]\<rparr>"
  have inst: "WebAssembly_instantiate (example_run_env ?inst) (0::nat) = Inr ?inst"
    by (simp add: example_run_env_def)
  have started: "call_function (start ?inst)
      \<lparr>r_errors = [], linear_memory = memory ?inst, r_calls = [Instantiate]\<rparr> = (None, ?s0)"
    by simp
  have site: "main ?inst =
      [Store 0 7, TryCatch [CallError 0 0 0 1 1, Store 2 8] [Store 2 9]] @
      CallError 1 0 0 3 5 # [Store 1 9]"
    by simp
  have reached: "call_function
      [Store 0 7, TryCatch [CallError 0 0 0 1 1, Store 2 8] [Store 2 9]]
      (?s0\<lparr>r_calls := r_calls ?s0 @ [CallMain]\<rparr>) = (None, ?s1)"
    by (simp add: core_error_def)
  from run_fault [OF inst started site reached] show ?thesis
    by (simp add: fault_diagnostic_def)
qed

section \<open>Properties of the value decoder\<close>

lemma take_drop_bytes_at:
  "off + len \<le> length m \<Longrightarrow> take len (drop off m) = bytes_at m off len"
  by (rule nth_equalityI) (simp_all add: bytes_at_def)

lemma upt_4: "[0..<4] = [0, 1, 2, 3]"
  by (simp add: upt_rec)

lemma upt_8: "[0..<8] = [0, 1, 2, 3, 4, 5, 6, 7]"
  by (simp add: upt_rec)

lemma getUint32_within:
  "off + 4 \<le> length m \<Longrightarrow> getUint32 m off = Inr (u32_at m off)"
  by (simp add: getUint32_def take_drop_bytes_at bytes_at_def upt_4 u32_at_def)

lemma getUint32_outside:
  "\<not> off + 4 \<le> length m \<Longrightarrow> getUint32 m off = Inl RangeError"
  by (simp add: getUint32_def)

lemma getFloat64_within:
  "off + 8 \<le> length m \<Longrightarrow> getFloat64 m off = Inr (of_nat (u64_at m off))"
  by (simp add: getFloat64_def take_drop_bytes_at bytes_at_def upt_8 u64_at_def)


lemma offsets: "tag_offset = 2 ^ 20 - 12" "data_offset = 2 ^ 20 - 8"
  by (simp_all add: tag_offset_def data_offset_def)

text \<open>On a memory of at least \<open>1 << 20\<close> bytes the tag and the data words can be read.\<close>

lemma read_js_result_within:
  assumes "2 ^ 20 \<le> length m"
  shows "read_js_result m =
     (let tag = u32_at m (2 ^ 20 - 12) in
      if tag = 0 then Inr (JSString (js_lit ''(unassigned variable was returned)''))
      else if tag = 1 then Inr JSUndefined
      else if tag = 2 then Inr (JSNumber (of_nat (u64_at m (2 ^ 20 - 8))))
      else if tag = 3 then Inr (JSBoolean (u32_at m (2 ^ 20 - 8) \<noteq> 0))
      else if tag = 4 then
        (case getUint32 m (u32_at m (2 ^ 20 - 8)) of
           Inl e \<Rightarrow> Inl e
         | Inr len \<Rightarrow>
             (case Uint8Array m (u32_at m (2 ^ 20 - 8) + 4) len of
                Inl e \<Rightarrow> Inl e
              | Inr bytes \<Rightarrow> Inr (JSString (text_decode bytes))))
      else if tag = 5 then Inr (JSString (js_lit ''(function was returned)''))
      else Inr (JSString (js_lit
             (''(struct or invalid type ('' @ number_to_string tag @ '') was returned)''))))"
proof -
  from assms have t: "getUint32 m (2 ^ 20 - 12) = Inr (u32_at m (2 ^ 20 - 12))"
    by (intro getUint32_within) simp
  from assms have d: "getUint32 m (2 ^ 20 - 8) = Inr (u32_at m (2 ^ 20 - 8))"
    by (intro getUint32_within) simp
  from assms have f: "getFloat64 m (2 ^ 20 - 8) = Inr (of_nat (u64_at m (2 ^ 20 - 8)))"
    by (intro getFloat64_within) simp
  have n: "(2::nat) ^ 20 - 12 = 1048564" "(2::nat) ^ 20 - 8 = 1048568"
    by simp_all
  show ?thesis
    using t d f unfolding read_js_result_def offsets n by (simp add: Let_def)
qed






























lemma number_to_string_unfold:
  "number_to_string n =
     (if n < 10 then [''0123456789'' ! n]
      else number_to_string (n div 10) @ [''0123456789'' ! (n mod 10)])"
  by (rule number_to_string.simps)

declare number_to_string.simps [simp del]





lemmas read_eval = read_js_result_def getUint32_def getFloat64_def Uint8Array_def
  tag_offset_def data_offset_def memory_image_def number_to_string_unfold

lemmas decode_eval = text_decode_def js_lit_def utf8_handler_def utf8_lead_def
  utf8_initial_def utf16_units_def

lemmas fixture_eval = string_memory_def tagged_memory_def memory_image_def



text \<open>
  Claim C3, as stated, fails: on a memory of \<open>1 << 20\<close> bytes with tag 4 and the pointer
  word 0xFFFFFFFF, the read of the length at the pointer is outside the buffer and
  \<open>read_js_result\<close> raises a \<open>RangeError\<close>.
\<close>

theorem read_js_result_raises:
  "read_js_result (tagged_memory 4 [255, 255, 255, 255, 0, 0, 0, 0]) = Inl RangeError"
  by (simp add: tagged_memory_def read_eval)

text \<open>
  Claim C3, amended. On a memory of at least \<open>1 << 20\<close> bytes, \<open>read_js_result\<close>, a
  function of the contents alone, returns a value for every tag other than 4, and for
  tag 4 exactly when the length word at the pointer \<open>p\<close> and the \<open>len\<close> bytes from
  \<open>p + 4\<close> lie inside the memory; when it returns no value it raises a \<open>RangeError\<close>.
  An unrecognized tag yields the invalid-tag text, not an error.
\<close>

theorem read_js_result_returns:
  assumes "2 ^ 20 \<le> length m"
  shows "((\<exists>v. read_js_result m = Inr v) \<longleftrightarrow>
            (u32_at m (2 ^ 20 - 12) = 4 \<longrightarrow>
               u32_at m (2 ^ 20 - 8) + 4 \<le> length m \<and>
               u32_at m (2 ^ 20 - 8) + 4 + u32_at m (u32_at m (2 ^ 20 - 8)) \<le> length m)) \<and>
         ((\<forall>v. read_js_result m \<noteq> Inr v) \<longrightarrow> read_js_result m = Inl RangeError) \<and>
         (u32_at m (2 ^ 20 - 12) \<notin> {0, 1, 2, 3, 4, 5} \<longrightarrow>
            read_js_result m =
              Inr (JSString (js_lit (''(struct or invalid type ('' @
                     number_to_string (u32_at m (2 ^ 20 - 12)) @ '') was returned)''))))"
proof (cases "u32_at m (2 ^ 20 - 8) + 4 \<le> length m")
  case True
  then show ?thesis
    using assms
    by (simp add: read_js_result_within Let_def getUint32_within Uint8Array_def)
next
  case False
  then show ?thesis
    using assms
    by (simp add: read_js_result_within Let_def getUint32_outside)
qed

theorem read_js_result_returns_witness:
  "2 ^ 20 \<le> length (string_memory ''hello'') \<and>
   (\<exists>v. read_js_result (string_memory ''hello'') = Inr v) \<and>
   2 ^ 20 \<le> length (tagged_memory 4 [0, 0, 16, 0, 0, 0, 0, 0]) \<and>
   u32_at (tagged_memory 4 [0, 0, 16, 0, 0, 0, 0, 0]) (2 ^ 20 - 8) = 2 ^ 20 \<and>
   read_js_result (tagged_memory 4 [0, 0, 16, 0, 0, 0, 0, 0]) = Inl RangeError"
proof -
  let ?hello = "string_memory ''hello''"
  let ?wild = "tagged_memory 4 [0, 0, 16, 0, 0, 0, 0, 0]"
  have size: "2 ^ 20 \<le> length ?hello" "2 ^ 20 \<le> length ?wild"
    by (simp_all add: fixture_eval)
  have hello: "u32_at ?hello (2 ^ 20 - 12) = 4" "u32_at ?hello (2 ^ 20 - 8) = 0"
    "u32_at ?hello 0 = 5" "length ?hello = 1048576"
    by (simp_all add: fixture_eval u32_at_def nth_append)
  have wild: "u32_at ?wild (2 ^ 20 - 12) = 4" "u32_at ?wild (2 ^ 20 - 8) = 1048576"
    "length ?wild = 1048576"
    by (simp_all add: fixture_eval u32_at_def nth_append)
  from read_js_result_returns [OF size(1)] hello
  have "\<exists>v. read_js_result ?hello = Inr v"
    by simp
  moreover from read_js_result_returns [OF size(2)] wild
  have "read_js_result ?wild = Inl RangeError"
    by simp
  ultimately show ?thesis
    using size wild(2) by simp
qed

text \<open>
  Claim C10. On a memory of at least \<open>1 << 20\<close> bytes the results for tag 0, for tag 5
  and for a tag that is none of 0 to 5 are host strings, as the result for tag 4 is. A
  memory with tag 4 whose text is the marker text decodes to the same value as the memory
  with tag 0, with tag 5 and with tag 99, so the result does not determine the tag.
\<close>

theorem decoded_string_hides_tag:
  "(2 ^ 20 \<le> length m \<longrightarrow>
      (u32_at m (2 ^ 20 - 12) = 0 \<longrightarrow>
         read_js_result m = Inr (JSString (js_lit ''(unassigned variable was returned)''))) \<and>
      (u32_at m (2 ^ 20 - 12) = 5 \<longrightarrow>
         read_js_result m = Inr (JSString (js_lit ''(function was returned)''))) \<and>
      (u32_at m (2 ^ 20 - 12) \<notin> {0, 1, 2, 3, 4, 5} \<longrightarrow>
         read_js_result m =
           Inr (JSString (js_lit (''(struct or invalid type ('' @
                  number_to_string (u32_at m (2 ^ 20 - 12)) @ '') was returned)''))))) \<and>
   u32_at (tagged_memory 0 [0, 0, 0, 0, 0, 0, 0, 0]) (2 ^ 20 - 12) = 0 \<and>
   u32_at (string_memory ''(unassigned variable was returned)'') (2 ^ 20 - 12) = 4 \<and>
   read_js_result (string_memory ''(unassigned variable was returned)'') =
     read_js_result (tagged_memory 0 [0, 0, 0, 0, 0, 0, 0, 0]) \<and>
   u32_at (tagged_memory 5 [0, 0, 0, 0, 0, 0, 0, 0]) (2 ^ 20 - 12) = 5 \<and>
   u32_at (string_memory ''(function was returned)'') (2 ^ 20 - 12) = 4 \<and>
   read_js_result (string_memory ''(function was returned)'') =
     read_js_result (tagged_memory 5 [0, 0, 0, 0, 0, 0, 0, 0]) \<and>
   u32_at (tagged_memory 99 [0, 0, 0, 0, 0, 0, 0, 0]) (2 ^ 20 - 12) = 99 \<and>
   u32_at (string_memory ''(struct or invalid type (99) was returned)'') (2 ^ 20 - 12) = 4 \<and>
   read_js_result (string_memory ''(struct or invalid type (99) was returned)'') =
     read_js_result (tagged_memory 99 [0, 0, 0, 0, 0, 0, 0, 0])"
proof -
  have general: "2 ^ 20 \<le> length m \<longrightarrow>
      (u32_at m (2 ^ 20 - 12) = 0 \<longrightarrow>
         read_js_result m = Inr (JSString (js_lit ''(unassigned variable was returned)''))) \<and>
      (u32_at m (2 ^ 20 - 12) = 5 \<longrightarrow>
         read_js_result m = Inr (JSString (js_lit ''(function was returned)''))) \<and>
      (u32_at m (2 ^ 20 - 12) \<notin> {0, 1, 2, 3, 4, 5} \<longrightarrow>
         read_js_result m =
           Inr (JSString (js_lit (''(struct or invalid type ('' @
                  number_to_string (u32_at m (2 ^ 20 - 12)) @ '') was returned)''))))"
    by (simp add: read_js_result_within Let_def)
  have tags: "u32_at (tagged_memory 0 [0, 0, 0, 0, 0, 0, 0, 0]) (2 ^ 20 - 12) = 0"
    "u32_at (tagged_memory 5 [0, 0, 0, 0, 0, 0, 0, 0]) (2 ^ 20 - 12) = 5"
    "u32_at (tagged_memory 99 [0, 0, 0, 0, 0, 0, 0, 0]) (2 ^ 20 - 12) = 99"
    "u32_at (string_memory ''(unassigned variable was returned)'') (2 ^ 20 - 12) = 4"
    "u32_at (string_memory ''(function was returned)'') (2 ^ 20 - 12) = 4"
    "u32_at (string_memory ''(struct or invalid type (99) was returned)'') (2 ^ 20 - 12) = 4"
    by (simp_all add: fixture_eval u32_at_def nth_append)
  have unassigned: "read_js_result (string_memory ''(unassigned variable was returned)'') =
     read_js_result (tagged_memory 0 [0, 0, 0, 0, 0, 0, 0, 0])"
    by (simp add: fixture_eval read_eval decode_eval)
  have func: "read_js_result (string_memory ''(function was returned)'') =
     read_js_result (tagged_memory 5 [0, 0, 0, 0, 0, 0, 0, 0])"
    by (simp add: fixture_eval read_eval decode_eval)
  have invalid: "read_js_result (string_memory ''(struct or invalid type (99) was returned)'') =
     read_js_result (tagged_memory 99 [0, 0, 0, 0, 0, 0, 0, 0])"
    by (simp add: fixture_eval read_eval decode_eval)
  from general tags unassigned func invalid show ?thesis
    by (simp only: simp_thms)
qed

theorem decoded_string_hides_tag_witness:
  "2 ^ 20 \<le> length (tagged_memory 5 [0, 0, 0, 0, 0, 0, 0, 0]) \<and>
   u32_at (tagged_memory 5 [0, 0, 0, 0, 0, 0, 0, 0]) (2 ^ 20 - 12) = 5 \<and>
   read_js_result (tagged_memory 5 [0, 0, 0, 0, 0, 0, 0, 0]) =
     Inr (JSString (js_lit ''(function was returned)''))"
  using decoded_string_hides_tag [of "tagged_memory 5 [0, 0, 0, 0, 0, 0, 0, 0]"]
  by (simp add: fixture_eval u32_at_def nth_append)

end
